theory Spec2Isabelle
  imports Complex_Main "HOL-Library.Word" "HOL-Library.Signed_Division"
begin

section \<open>Identifiers and their textual form\<close>

text \<open>
  OpenTelemetry trace ids are 16 bytes and span ids 8 bytes; both are read here as
  big-endian words.  \<open>TraceID.String()\<close> and \<open>SpanID.String()\<close> are the lower-case
  hexadecimal rendering of the bytes, 32 and 16 characters long.
\<close>

type_synonym trace_id = "128 word"
type_synonym span_id = "64 word"

record span_context =
  sc_trace_id :: trace_id
  sc_span_id :: span_id

definition span_context_IsValid :: "span_context \<Rightarrow> bool" where
  "span_context_IsValid sc = (sc_trace_id sc \<noteq> 0 \<and> sc_span_id sc \<noteq> 0)"

definition hex_digit :: "nat \<Rightarrow> char" where
  "hex_digit d = ''0123456789abcdef'' ! d"

fun hex_encode :: "nat \<Rightarrow> nat \<Rightarrow> string" where
  "hex_encode 0 v = []"
| "hex_encode (Suc n) v = hex_encode n (v div 16) @ [hex_digit (v mod 16)]"

definition TraceID_String :: "trace_id \<Rightarrow> string" where
  "TraceID_String t = hex_encode 32 (unat t)"

definition SpanID_String :: "span_id \<Rightarrow> string" where
  "SpanID_String i = hex_encode 16 (unat i)"

section \<open>Time\<close>

text \<open>
  \<open>time.Duration\<close> is an int64 count of nanoseconds: a 64-bit word read with \<open>sint\<close>.
  Go's integer division truncates towards zero, which is \<open>sdiv\<close> on \<open>int\<close>.
\<close>

type_synonym duration = "64 word"

definition Millisecond :: duration where
  "Millisecond = 1000000"

definition Milliseconds :: "duration \<Rightarrow> 64 word" where
  "Milliseconds d = word_of_int (sint d sdiv 1000000)"

section \<open>Telemetry state\<close>

record span_data =
  sp_name :: string
  sp_context :: span_context
  sp_parent :: "span_id option"
  sp_start :: int
  sp_end :: int

record live_span =
  ls_name :: string
  ls_context :: span_context
  ls_parent :: "span_id option"
  ls_start :: int

datatype attr_value = StringValue string | Int64Value "64 word"

text \<open>\<open>slog.Level\<close> is an integer: Info is 0 and Error is 8.\<close>

definition LevelInfo :: int where
  "LevelInfo = 0"

definition LevelError :: int where
  "LevelError = 8"

record log_record =
  lr_time :: int
  lr_level :: int
  lr_msg :: string
  lr_attrs :: "(string \<times> attr_value) list"

text \<open>
  The world a request runs in.  Spans and log records are stamped from the wall clock, in
  nanoseconds.  Between one reading of the clock and the next some time passes that the
  program does not control (the calls in between, the scheduler, a sleep returning late):
  \<open>pace s k\<close> is that time before the \<open>k\<close>-th reading, and \<open>reads\<close> counts the readings
  made so far.  The world also holds the number of identifiers drawn from the id generator,
  the spans handed to the span processor (in the order they ended), the records written to
  standard output and the durations passed to \<open>time.Sleep\<close>.
\<close>

record world =
  clock :: int
  reads :: nat
  pace :: "nat \<Rightarrow> nat"
  next_id :: nat
  spans :: "span_data list"
  logs :: "log_record list"
  sleeps :: "duration list"

definition time_Now :: "world \<Rightarrow> int \<times> world" where
  "time_Now s =
     (let t = clock s + int (pace s (reads s))
      in (t, s\<lparr>clock := t, reads := Suc (reads s)\<rparr>))"

text \<open>
  \<open>time.Sleep\<close> pauses for at least the duration \<open>d\<close> and returns at once when \<open>d\<close> is
  zero or negative.  The time by which it returns late is part of the pace before the next
  reading of the clock.
\<close>

definition time_Sleep :: "duration \<Rightarrow> world \<Rightarrow> world" where
  "time_Sleep d s =
     s\<lparr>clock := clock s + (if sint d \<le> 0 then 0 else sint d), sleeps := sleeps s @ [d]\<rparr>"

section \<open>Context and tracer\<close>

text \<open>
  A \<open>context.Context\<close> carries at most one active span.  \<open>trace.SpanFromContext\<close>
  returns a no-op span with the all-zero span context when there is none.
\<close>

type_synonym go_context = "span_context option"

definition SpanFromContext :: "go_context \<Rightarrow> span_context" where
  "SpanFromContext ctx =
     (case ctx of None \<Rightarrow> \<lparr>sc_trace_id = 0, sc_span_id = 0\<rparr> | Some sc \<Rightarrow> sc)"

record id_generator =
  NewIDs :: "nat \<Rightarrow> trace_id \<times> span_id"
  NewSpanID :: "nat \<Rightarrow> span_id"

text \<open>
  Modelled from the spec: \<open>Tracer.Start\<close> of the OpenTelemetry SDK, which is not part
  of the repository.  Section 3 of the specification: "child contexts are derived (same
  trace_id, new span_id, parent_span_id = caller's span_id)".  With no valid span in the
  context a new root is started with fresh identifiers.  The call returns the context with
  the new span installed together with the span itself.
\<close>

definition new_span :: "id_generator \<Rightarrow> go_context \<Rightarrow> string \<Rightarrow> nat \<Rightarrow> int \<Rightarrow> live_span" where
  "new_span g ctx name n t =
     (let parent = SpanFromContext ctx;
          sc = (if span_context_IsValid parent
                then \<lparr>sc_trace_id = sc_trace_id parent, sc_span_id = NewSpanID g n\<rparr>
                else \<lparr>sc_trace_id = fst (NewIDs g n), sc_span_id = snd (NewIDs g n)\<rparr>)
      in \<lparr>ls_name = name, ls_context = sc,
          ls_parent = (if span_context_IsValid parent then Some (sc_span_id parent) else None),
          ls_start = t\<rparr>)"

definition tracer_Start ::
  "id_generator \<Rightarrow> go_context \<Rightarrow> string \<Rightarrow> world \<Rightarrow> (go_context \<times> live_span) \<times> world" where
  "tracer_Start g ctx name s =
     (let (t, s1) = time_Now s;
          sp = new_span g ctx name (next_id s1) t
      in ((Some (ls_context sp), sp), s1\<lparr>next_id := Suc (next_id s1)\<rparr>))"

text \<open>\<open>Span.End\<close> stamps the end time and hands the span to the span processor.\<close>

definition end_span :: "live_span \<Rightarrow> int \<Rightarrow> span_data" where
  "end_span sp t =
     \<lparr>sp_name = ls_name sp, sp_context = ls_context sp, sp_parent = ls_parent sp,
      sp_start = ls_start sp, sp_end = t\<rparr>"

definition span_End :: "live_span \<Rightarrow> world \<Rightarrow> world" where
  "span_End sp s =
     (let (t, s1) = time_Now s
      in s1\<lparr>spans := spans s1 @ [end_span sp t]\<rparr>)"

section \<open>Structured logger\<close>

text \<open>
  The package-level \<open>logger\<close> is a JSON handler with default options: minimum level Info
  and no attributes.  \<open>With\<close> returns a handle whose attributes precede those of each call.
\<close>

record slog_logger =
  lg_min_level :: int
  lg_attrs :: "(string \<times> attr_value) list"

definition logger :: slog_logger where
  "logger = \<lparr>lg_min_level = LevelInfo, lg_attrs = []\<rparr>"

definition logger_With :: "slog_logger \<Rightarrow> (string \<times> attr_value) list \<Rightarrow> slog_logger" where
  "logger_With l kvs = l\<lparr>lg_attrs := lg_attrs l @ kvs\<rparr>"

definition logger_log ::
  "slog_logger \<Rightarrow> int \<Rightarrow> string \<Rightarrow> (string \<times> attr_value) list \<Rightarrow> world \<Rightarrow> world" where
  "logger_log l lvl msg kvs s =
     (if lvl < lg_min_level l then s
      else (let (t, s1) = time_Now s
            in s1\<lparr>logs := logs s1 @
                 [\<lparr>lr_time = t, lr_level = lvl, lr_msg = msg, lr_attrs = lg_attrs l @ kvs\<rparr>]\<rparr>))"

section \<open>HTTP response writer\<close>

text \<open>
  \<open>http.ResponseWriter\<close>: the status line is fixed by the first \<open>WriteHeader\<close>, or as 200
  by the first \<open>Write\<close> when no header was written.  \<open>http.Error\<close> sets the plain-text
  headers, writes the status and prints the message with \<open>fmt.Fprintln\<close>, that is, followed
  by a newline.
\<close>

record response_writer =
  rw_status :: "nat option"
  rw_header :: "string \<rightharpoonup> string"
  rw_body :: string

definition new_response_writer :: response_writer where
  "new_response_writer = \<lparr>rw_status = None, rw_header = Map.empty, rw_body = []\<rparr>"

definition WriteHeader :: "nat \<Rightarrow> response_writer \<Rightarrow> response_writer" where
  "WriteHeader code w = (case rw_status w of None \<Rightarrow> w\<lparr>rw_status := Some code\<rparr> | Some _ \<Rightarrow> w)"

definition Write :: "string \<Rightarrow> response_writer \<Rightarrow> response_writer" where
  "Write bs w =
     (let w' = (case rw_status w of None \<Rightarrow> WriteHeader 200 w | Some _ \<Rightarrow> w)
      in w'\<lparr>rw_body := rw_body w' @ bs\<rparr>)"

definition http_Error :: "response_writer \<Rightarrow> string \<Rightarrow> nat \<Rightarrow> response_writer" where
  "http_Error w err code =
     (let w1 = w\<lparr>rw_header := (rw_header w)(''Content-Length'' := None)\<rparr>;
          w2 = w1\<lparr>rw_header := (rw_header w1)(''Content-Type'' \<mapsto> ''text/plain; charset=utf-8'')\<rparr>;
          w3 = w2\<lparr>rw_header := (rw_header w2)(''X-Content-Type-Options'' \<mapsto> ''nosniff'')\<rparr>;
          w4 = WriteHeader code w3
      in Write (err @ [CHR 0x0A]) w4)"

text \<open>The status the client sees: 200 when the handler returned without writing one.\<close>

definition response_status :: "response_writer \<Rightarrow> nat" where
  "response_status w = (case rw_status w of None \<Rightarrow> 200 | Some c \<Rightarrow> c)"

section \<open>Random draws\<close>

text \<open>
  What the generator of \<open>math/rand\<close> hands to the three calls one request makes, in the
  order the handler makes them: \<open>rand.Intn(400)\<close>, \<open>rand.Intn(200)\<close> and
  \<open>rand.Float32()\<close>.  For the two \<open>Intn\<close> calls it is the 31-bit value of the source that
  \<open>Int31n\<close> works on; for \<open>Float32\<close> it is the result, a \<open>float32\<close> represented by its
  exact rational value.
\<close>

record draws =
  latency_src :: nat
  cache_src :: nat
  outcome_draw :: rat

text \<open>
  \<open>rand.Intn(n)\<close> for \<open>n\<close> up to \<open>2 ^ 31 - 1\<close> is \<open>Int31n(n)\<close>: it draws 31-bit values \<open>v\<close>
  from the source until one is at most \<open>max = 2 ^ 31 - 1 - 2 ^ 31 % n\<close> and returns
  \<open>v % n\<close> (for a power of two it returns \<open>v & (n - 1)\<close>, the same number, without
  rejecting).  The function below is the result as a function of the value that is kept;
  both calls of the handler pass a positive literal, for which \<open>Intn\<close> does not panic.
\<close>

definition rand_Intn :: "int \<Rightarrow> nat \<Rightarrow> int" where
  "rand_Intn n v = int v mod n"

definition Int31n_max :: "nat \<Rightarrow> nat" where
  "Int31n_max n = 2 ^ 31 - 1 - 2 ^ 31 mod n"

text \<open>
  \<open>rand.Float32()\<close> returns a \<open>float32\<close> in the half-open unit interval.  Such a value is
  \<open>m / 2 ^ e\<close> with a significand \<open>m\<close> below \<open>2 ^ 24\<close> and \<open>e\<close> at most 149.
\<close>

definition is_float32_unit :: "rat \<Rightarrow> bool" where
  "is_float32_unit x =
     (0 \<le> x \<and> x < 1 \<and>
      (\<exists>e \<in> set [0 ..< 150]. x * 2 ^ e < 2 ^ 24 \<and> of_int \<lfloor>x * 2 ^ e\<rfloor> = x * 2 ^ e))"

definition valid_draws :: "draws \<Rightarrow> bool" where
  "valid_draws d = is_float32_unit (outcome_draw d)"

text \<open>
  The untyped constant \<open>0.2\<close> compared with a \<open>float32\<close> is rounded to the nearest
  \<open>float32\<close>, which is \<open>13421773 / 2 ^ 26\<close>.
\<close>

definition float32_0_2 :: rat where
  "float32_0_2 = 13421773 / 67108864"

section \<open>Handlers\<close>

record request =
  req_path :: string
  req_ctx :: go_context

definition healthzHandler :: "response_writer \<Rightarrow> request \<Rightarrow> world \<Rightarrow> response_writer \<times> world" where
  "healthzHandler w r s = (Write ''OK'' (WriteHeader 200 w), s)"

definition workHandler ::
  "id_generator \<Rightarrow> draws \<Rightarrow> response_writer \<Rightarrow> request \<Rightarrow> world \<Rightarrow> response_writer \<times> world" where
  "workHandler g d w r s0 =
     (let ctx = req_ctx r;
          span = SpanFromContext ctx;
          traceID = TraceID_String (sc_trace_id span);
          log = logger_With logger
                  [(''trace_id'', StringValue traceID),
                   (''span_id'', StringValue (SpanID_String (sc_span_id span)))];
          ((_, childSpan), s1) = tracer_Start g ctx ''simulate_work'' s0;
          latency = word_of_int (rand_Intn 400 (latency_src d)) * Millisecond;
          s2 = time_Sleep latency s1;
          s3 = span_End childSpan s2;
          ((_, cacheSpan), s4) = tracer_Start g ctx ''db_cache_lookup'' s3;
          s5 = time_Sleep (word_of_int (rand_Intn 200 (cache_src d)) * Millisecond) s4;
          s6 = span_End cacheSpan s5
      in if outcome_draw d < float32_0_2
         then (let s7 = logger_log log LevelError ''request failed''
                          [(''latency_ms'', Int64Value (Milliseconds latency)),
                           (''status'', Int64Value 500)] s6
               in (http_Error w ''Internal Server Error'' 500, s7))
         else (let s7 = logger_log log LevelInfo ''request succeeded''
                          [(''latency_ms'', Int64Value (Milliseconds latency)),
                           (''status'', Int64Value 200)] s6
               in (Write (''Work completed'' @ [CHR 0x0A]) w, s7)))"

text \<open>
  Modelled from the spec: \<open>otelhttp.NewHandler\<close>, which is not part of the repository.
  Section 4.2 of the specification: it "wraps a route handler with a name; on each
  invocation, starts a root span named after the route, sets it as the active Trace Context
  for the duration of the call ... and ends the span when the handler returns".  No
  propagator is installed by \<open>main\<close>, so the span is started from the request's own context.
\<close>

definition otelhttp_NewHandler ::
  "id_generator \<Rightarrow> (response_writer \<Rightarrow> request \<Rightarrow> world \<Rightarrow> response_writer \<times> world) \<Rightarrow> string \<Rightarrow>
   response_writer \<Rightarrow> request \<Rightarrow> world \<Rightarrow> response_writer \<times> world" where
  "otelhttp_NewHandler g h operation w r s =
     (let ((ctx, root), s1) = tracer_Start g (req_ctx r) operation s;
          (w', s2) = h w (r\<lparr>req_ctx := ctx\<rparr>) s1
      in (w', span_End root s2))"

text \<open>
  The routes registered by \<open>main\<close> on the default mux; any other path is answered by the
  mux's own not-found handler.
\<close>

definition serve ::
  "id_generator \<Rightarrow> draws \<Rightarrow> request \<Rightarrow> world \<Rightarrow> response_writer \<times> world" where
  "serve g d r s =
     (if req_path r = ''/healthz''
      then otelhttp_NewHandler g healthzHandler ''healthz'' new_response_writer r s
      else if req_path r = ''/work''
      then otelhttp_NewHandler g (workHandler g d) ''work'' new_response_writer r s
      else (http_Error new_response_writer ''404 page not found'' 404, s))"

section \<open>Provider lifecycle\<close>

text \<open>
  The OTLP gRPC exporters are built from an option list applied in order to the exporter's
  defaults (TLS, \<open>localhost:4317\<close>).  Whether the resource and the two exporters can be
  constructed is decided by the SDK; each of the three calls either succeeds or returns
  an error, and \<open>initOTel\<close> answers an error with \<open>log.Fatalf\<close>.
\<close>

record exporter_config =
  ec_endpoint :: string
  ec_insecure :: bool

datatype exporter_option = WithInsecure | WithEndpoint string

definition default_exporter_config :: exporter_config where
  "default_exporter_config = \<lparr>ec_endpoint = ''localhost:4317'', ec_insecure = False\<rparr>"

fun apply_option :: "exporter_option \<Rightarrow> exporter_config \<Rightarrow> exporter_config" where
  "apply_option WithInsecure c = c\<lparr>ec_insecure := True\<rparr>"
| "apply_option (WithEndpoint e) c = c\<lparr>ec_endpoint := e\<rparr>"

definition exporter_New :: "exporter_option list \<Rightarrow> exporter_config" where
  "exporter_New opts = fold apply_option opts default_exporter_config"

record sdk_errors =
  resource_err :: "string option"
  trace_exporter_err :: "exporter_config \<Rightarrow> string option"
  metric_exporter_err :: "exporter_config \<Rightarrow> string option"

datatype fatal = Fatal string

record resource =
  service_name :: string
  service_version :: string

record providers =
  tp_exporter :: exporter_config
  tp_resource :: resource
  mp_exporter :: exporter_config
  mp_resource :: resource

text \<open>\<open>os.Getenv\<close> returns the empty string for a variable that is not set.\<close>

definition os_Getenv :: "(string \<rightharpoonup> string) \<Rightarrow> string \<Rightarrow> string" where
  "os_Getenv env k = (case env k of None \<Rightarrow> [] | Some v \<Rightarrow> v)"

definition initOTel :: "sdk_errors \<Rightarrow> (string \<rightharpoonup> string) \<Rightarrow> fatal + providers" where
  "initOTel sdk env =
     (case resource_err sdk of
        Some e \<Rightarrow> Inl (Fatal (''failed to create resource: '' @ e))
      | None \<Rightarrow>
          (let res = \<lparr>service_name = ''sample-app'', service_version = ''1.0.0''\<rparr>;
               env_endpoint = os_Getenv env ''OTEL_EXPORTER_OTLP_ENDPOINT'';
               otelEndpoint = (if env_endpoint = [] then ''otel-collector:4317'' else env_endpoint);
               traceExporter = exporter_New [WithInsecure, WithEndpoint otelEndpoint]
           in case trace_exporter_err sdk traceExporter of
                Some e \<Rightarrow> Inl (Fatal (''failed to create trace exporter: '' @ e))
              | None \<Rightarrow>
                  (let metricExporter = exporter_New [WithInsecure, WithEndpoint otelEndpoint]
                   in case metric_exporter_err sdk metricExporter of
                        Some e \<Rightarrow> Inl (Fatal (''failed to create metric exporter: '' @ e))
                      | None \<Rightarrow>
                          Inr \<lparr>tp_exporter = traceExporter, tp_resource = res,
                               mp_exporter = metricExporter, mp_resource = res\<rparr>)))"

text \<open>
  The cleanup function returned by \<open>initOTel\<close> calls \<open>Shutdown\<close> on the tracer
  provider and then on the meter provider and drops both error results.  A call into the
  SDK either returns an error value and the provider's new state, or panics; a panic
  leaves the closure at once.  The two \<open>Shutdown\<close> methods are parameters.
\<close>

datatype 'p sdk_call = Returns "string option" 'p | Panics

definition shutdown_fn ::
  "('tp \<Rightarrow> 'tp sdk_call) \<Rightarrow> ('mp \<Rightarrow> 'mp sdk_call) \<Rightarrow> 'tp \<times> 'mp \<Rightarrow> ('tp \<times> 'mp) option" where
  "shutdown_fn tp_Shutdown mp_Shutdown st =
     (case tp_Shutdown (fst st) of
        Panics \<Rightarrow> None
      | Returns _ tp' \<Rightarrow>
          (case mp_Shutdown (snd st) of
             Panics \<Rightarrow> None
           | Returns _ mp' \<Rightarrow> Some (tp', mp')))"

text \<open>
  The two providers of the OpenTelemetry SDK, as far as shutting down goes.  The tracer
  provider built by \<open>initOTel\<close> owns one batch span processor on the trace exporter,
  the meter provider one periodic reader on the metric exporter.

  \<open>TracerProvider.Shutdown\<close> returns \<open>nil\<close> at once when the provider's \<open>isShutdown\<close>
  flag is set.  Otherwise it sets the flag and shuts the span processor down, which hands
  the queued spans to the exporter and stops the exporter; the error of that is returned.

  \<open>MeterProvider.Shutdown\<close> runs the reader's shutdown under a \<open>sync.Once\<close>: the first
  call collects and exports what is pending and stops the exporter, returning the error of
  that; every later call returns \<open>ErrReaderShutdown\<close> and does nothing else.

  The error the exporter will answer with (none, or for example a collector that cannot
  be reached) is a field of the state.  Neither method panics.  The context passed by
  \<open>main\<close> is \<open>context.Background()\<close>, which is never cancelled.
\<close>

record tracer_provider =
  tp_isShutdown :: bool
  tp_queue :: "span_data list"
  tp_flushed :: "span_data list"
  tp_exporter_stops :: nat
  tp_fault :: "string option"

definition TracerProvider_Shutdown :: "tracer_provider \<Rightarrow> tracer_provider sdk_call" where
  "TracerProvider_Shutdown p =
     (if tp_isShutdown p then Returns None p
      else Returns (tp_fault p)
             (p\<lparr>tp_isShutdown := True, tp_queue := [], tp_flushed := tp_flushed p @ tp_queue p,
                tp_exporter_stops := Suc (tp_exporter_stops p)\<rparr>))"

record meter_provider =
  mp_isShutdown :: bool
  mp_pending :: nat
  mp_flushed :: nat
  mp_exporter_stops :: nat
  mp_fault :: "string option"

definition MeterProvider_Shutdown :: "meter_provider \<Rightarrow> meter_provider sdk_call" where
  "MeterProvider_Shutdown p =
     (if mp_isShutdown p then Returns (Some ''reader is shutdown'') p
      else Returns (mp_fault p)
             (p\<lparr>mp_isShutdown := True, mp_pending := 0, mp_flushed := mp_flushed p + mp_pending p,
                mp_exporter_stops := Suc (mp_exporter_stops p)\<rparr>))"

text \<open>The cleanup function \<open>main\<close> holds: the closure over the two providers.\<close>

definition shutdown ::
  "tracer_provider \<times> meter_provider \<Rightarrow> (tracer_provider \<times> meter_provider) option" where
  "shutdown = shutdown_fn TracerProvider_Shutdown MeterProvider_Shutdown"

section \<open>Observing one request\<close>

text \<open>
  The spans, log records and requested sleeps added to the world between two of its states.
\<close>

definition request_spans :: "world \<Rightarrow> world \<Rightarrow> span_data list" where
  "request_spans s s' = drop (length (spans s)) (spans s')"

definition request_logs :: "world \<Rightarrow> world \<Rightarrow> log_record list" where
  "request_logs s s' = drop (length (logs s)) (logs s')"

definition request_sleeps :: "world \<Rightarrow> world \<Rightarrow> duration list" where
  "request_sleeps s s' = drop (length (sleeps s)) (sleeps s')"

text \<open>The time that passes before the \<open>i\<close>-th reading of the clock after the state \<open>s\<close>.\<close>

definition lapse :: "world \<Rightarrow> nat \<Rightarrow> int" where
  "lapse s i = int (pace s (reads s + i))"

text \<open>The identifiers the generator hands out at its \<open>n\<close>-th call are non-zero.\<close>

definition ids_valid :: "id_generator \<Rightarrow> nat \<Rightarrow> bool" where
  "ids_valid g n = (fst (NewIDs g n) \<noteq> 0 \<and> snd (NewIDs g n) \<noteq> 0 \<and> NewSpanID g n \<noteq> 0)"

text \<open>
  The record \<open>workHandler\<close> writes, in closed form: \<open>sc\<close> is the span context found in
  the request context and \<open>t\<close> the time of the call.
\<close>

definition work_log_record :: "draws \<Rightarrow> span_context \<Rightarrow> int \<Rightarrow> log_record" where
  "work_log_record d sc t =
     \<lparr>lr_time = t,
      lr_level = (if outcome_draw d < float32_0_2 then LevelError else LevelInfo),
      lr_msg = (if outcome_draw d < float32_0_2 then ''request failed'' else ''request succeeded''),
      lr_attrs =
        [(''trace_id'', StringValue (TraceID_String (sc_trace_id sc))),
         (''span_id'', StringValue (SpanID_String (sc_span_id sc))),
         (''latency_ms'', Int64Value (word_of_int (rand_Intn 400 (latency_src d)))),
         (''status'', Int64Value (if outcome_draw d < float32_0_2 then 500 else 200))]\<rparr>"

section \<open>Concrete inputs\<close>

definition counting_ids :: id_generator where
  "counting_ids =
     \<lparr>NewIDs = (\<lambda>n. (word_of_nat (n + 1), word_of_nat (n + 1))),
      NewSpanID = (\<lambda>n. word_of_nat (n + 1))\<rparr>"

text \<open>A world in which no time passes but in sleeps, and one with 370099 ns before each reading.\<close>

definition initial_world :: world where
  "initial_world =
     \<lparr>clock = 0, reads = 0, pace = (\<lambda>_. 0), next_id = 0, spans = [], logs = [], sleeps = []\<rparr>"

definition late_world :: world where
  "late_world =
     \<lparr>clock = 0, reads = 0, pace = (\<lambda>_. 370099), next_id = 0, spans = [], logs = [], sleeps = []\<rparr>"

definition work_request :: request where
  "work_request = \<lparr>req_path = ''/work'', req_ctx = None\<rparr>"

definition healthz_request :: request where
  "healthz_request = \<lparr>req_path = ''/healthz'', req_ctx = None\<rparr>"

definition failing_draws :: draws where
  "failing_draws = \<lparr>latency_src = 50, cache_src = 7, outcome_draw = 1 / 8\<rparr>"

definition passing_draws :: draws where
  "passing_draws = \<lparr>latency_src = 50, cache_src = 7, outcome_draw = 1 / 2\<rparr>"

definition zero_latency_draws :: draws where
  "zero_latency_draws = \<lparr>latency_src = 0, cache_src = 199, outcome_draw = 1 / 8\<rparr>"

text \<open>Source values above the bounds: 2147483599 is \<open>Int31n_max 400\<close>.\<close>

definition large_draws :: draws where
  "large_draws = \<lparr>latency_src = 2147483599, cache_src = 1000007, outcome_draw = 1 / 2\<rparr>"

definition no_sdk_errors :: sdk_errors where
  "no_sdk_errors =
     \<lparr>resource_err = None, trace_exporter_err = (\<lambda>_. None), metric_exporter_err = (\<lambda>_. None)\<rparr>"

definition env_unset :: "string \<rightharpoonup> string" where
  "env_unset = Map.empty"

definition env_custom :: "string \<rightharpoonup> string" where
  "env_custom = [''OTEL_EXPORTER_OTLP_ENDPOINT'' \<mapsto> ''collector.internal:4317'']"

text \<open>
  Two providers that are running, with one span queued and four metric points pending, and
  the same providers after shutting down; the metric exporter cannot reach its collector.
\<close>

definition queued_span :: span_data where
  "queued_span =
     \<lparr>sp_name = ''work'', sp_context = \<lparr>sc_trace_id = 1, sc_span_id = 1\<rparr>, sp_parent = None,
      sp_start = 0, sp_end = 57000000\<rparr>"

definition running_providers :: "tracer_provider \<times> meter_provider" where
  "running_providers =
     (\<lparr>tp_isShutdown = False, tp_queue = [queued_span], tp_flushed = [],
       tp_exporter_stops = 0, tp_fault = None\<rparr>,
      \<lparr>mp_isShutdown = False, mp_pending = 4, mp_flushed = 0, mp_exporter_stops = 0,
       mp_fault = Some ''context deadline exceeded''\<rparr>)"

definition stopped_providers :: "tracer_provider \<times> meter_provider" where
  "stopped_providers =
     (\<lparr>tp_isShutdown = True, tp_queue = [], tp_flushed = [queued_span],
       tp_exporter_stops = 1, tp_fault = None\<rparr>,
      \<lparr>mp_isShutdown = True, mp_pending = 0, mp_flushed = 4, mp_exporter_stops = 1,
       mp_fault = Some ''context deadline exceeded''\<rparr>)"

section \<open>Auxiliary facts\<close>

lemma float32_threshold:
  assumes "is_float32_unit x"
  shows "(x < float32_0_2) = (x < 1/5)"
proof -
  from assms obtain e where e: "e < 150" and small: "x * 2 ^ e < 2 ^ 24"
    and integral: "of_int \<lfloor>x * 2 ^ e\<rfloor> = x * 2 ^ e"
    by (auto simp: is_float32_unit_def)
  define m where "m = \<lfloor>x * 2 ^ e\<rfloor>"
  have xm: "x * 2 ^ e = of_int m" unfolding m_def by (rule integral[symmetric])
  have up: "x < 1/5" if lt: "x < 13421773 / 67108864"
  proof (rule ccontr)
    assume "\<not> x < 1/5"
    then have ge: "1/5 \<le> x" by simp
    show False
    proof (cases "e \<le> 26")
      case True
      define k where "k = m * 2 ^ (26 - e)"
      have "x * 2 ^ 26 = x * 2 ^ e * 2 ^ (26 - e)"
        using True by (simp add: power_add[symmetric])
      then have xk: "x * 67108864 = of_int k" by (simp add: xm k_def)
      from ge have "67108864 \<le> 5 * (x * 67108864)" by simp
      then have "(of_int 67108864 :: rat) \<le> of_int (5 * k)" by (simp add: xk)
      then have lo: "67108864 \<le> 5 * k" by (simp only: of_int_le_iff)
      from lt have "x * 67108864 < 13421773" by simp
      then have "(of_int k :: rat) < of_int 13421773" by (simp add: xk)
      then have hi: "k < 13421773" by (simp only: of_int_less_iff)
      from lo hi show False by arith
    next
      case False
      then have "27 \<le> e" by simp
      then have "(2::rat) ^ 27 \<le> 2 ^ e" by (rule power_increasing) simp
      then have a: "(134217728::rat) \<le> 2 ^ e" by simp
      have b: "1/5 * 2 ^ e \<le> x * 2 ^ e" using ge by (simp add: mult_right_mono)
      have c: "x * 2 ^ e < 16777216" using small by simp
      from a b c show False by linarith
    qed
  qed
  have down: "x < 13421773 / 67108864" if "x < 1/5"
    using that by simp
  show ?thesis unfolding float32_0_2_def using up down by blast
qed

lemma hex_digit_inj:
  assumes "a < 16" "b < 16" "hex_digit a = hex_digit b"
  shows "a = b"
proof -
  have "distinct ''0123456789abcdef''" by simp
  moreover have "a < length ''0123456789abcdef''" "b < length ''0123456789abcdef''"
    using assms by simp_all
  ultimately show ?thesis
    using assms(3) unfolding hex_digit_def by (simp only: nth_eq_iff_index_eq)
qed

lemma hex_encode_length: "length (hex_encode n v) = n"
  by (induction n arbitrary: v) simp_all

lemma hex_encode_inj:
  "hex_encode n v = hex_encode n w \<Longrightarrow> v mod 16 ^ n = w mod 16 ^ n"
proof (induction n arbitrary: v w)
  case 0
  then show ?case by simp
next
  case (Suc n)
  from Suc.prems have hi: "hex_encode n (v div 16) = hex_encode n (w div 16)"
    and lo: "hex_digit (v mod 16) = hex_digit (w mod 16)"
    by simp_all
  from lo have lo': "v mod 16 = w mod 16"
    by (intro hex_digit_inj) simp_all
  from Suc.IH [OF hi] have hi': "(v div 16) mod 16 ^ n = (w div 16) mod 16 ^ n" .
  have "v mod 16 ^ Suc n = 16 * ((v div 16) mod 16 ^ n) + v mod 16" for v :: nat
    by (simp add: mod_mult2_eq)
  then show ?case using lo' hi' by simp
qed

lemma SpanID_String_inj: "SpanID_String a = SpanID_String b \<Longrightarrow> a = b"
proof -
  assume "SpanID_String a = SpanID_String b"
  then have "unat a mod 16 ^ 16 = unat b mod 16 ^ 16"
    unfolding SpanID_String_def by (rule hex_encode_inj)
  moreover have "unat a < 16 ^ 16" "unat b < 16 ^ 16"
    using unsigned_less [of a] unsigned_less [of b] by simp_all
  ultimately have "unat a = unat b" by simp
  then show "a = b" by (rule word_unat_eq_iff [THEN iffD2])
qed

lemma TraceID_String_inj: "TraceID_String a = TraceID_String b \<Longrightarrow> a = b"
proof -
  assume "TraceID_String a = TraceID_String b"
  then have "unat a mod 16 ^ 32 = unat b mod 16 ^ 32"
    unfolding TraceID_String_def by (rule hex_encode_inj)
  moreover have "unat a < 16 ^ 32" "unat b < 16 ^ 32"
    using unsigned_less [of a] unsigned_less [of b] by simp_all
  ultimately have "unat a = unat b" by simp
  then show "a = b" by (rule word_unat_eq_iff [THEN iffD2])
qed

lemma serve_work:
  "req_path r = ''/work'' \<Longrightarrow>
   serve g d r s = otelhttp_NewHandler g (workHandler g d) ''work'' new_response_writer r s"
  by (simp add: serve_def)

lemma workHandler_writer:
  "fst (workHandler g d w r s) =
     (if outcome_draw d < float32_0_2 then http_Error w ''Internal Server Error'' 500
      else Write (''Work completed'' @ [CHR 0x0A]) w)"
  by (simp add: workHandler_def Let_def split: prod.splits)

lemma otelhttp_writer:
  "fst (otelhttp_NewHandler g h operation w r s) =
   fst (h w (r\<lparr>req_ctx := fst (fst (tracer_Start g (req_ctx r) operation s))\<rparr>)
          (snd (tracer_Start g (req_ctx r) operation s)))"
  by (simp add: otelhttp_NewHandler_def Let_def split: prod.splits)

lemma http_Error_new:
  "response_status (http_Error new_response_writer err code) = code"
  "rw_body (http_Error new_response_writer err code) = err @ [CHR 0x0A]"
  by (simp_all add: http_Error_def new_response_writer_def WriteHeader_def Write_def
      response_status_def Let_def)

lemma Write_new:
  "response_status (Write bs new_response_writer) = 200"
  "rw_body (Write bs new_response_writer) = bs"
  by (simp_all add: new_response_writer_def WriteHeader_def Write_def response_status_def Let_def)

lemma sint_ms:
  assumes "0 \<le> l" "l < 9000000000000"
  shows "sint (word_of_int l * Millisecond :: 64 word) = l * 1000000"
proof -
  have eq: "word_of_int l * Millisecond = (word_of_int (l * 1000000) :: 64 word)"
    by (simp add: Millisecond_def)
  have "sint (word_of_int (l * 1000000) :: 64 word) = signed_take_bit 63 (l * 1000000)"
    by (simp only: sint_sbintrunc') simp
  also have "\<dots> = l * 1000000"
    using assms by (intro signed_take_bit_int_eq_self) simp_all
  finally show ?thesis by (simp only: eq)
qed

lemma Milliseconds_ms:
  assumes "0 \<le> l" "l < 9000000000000"
  shows "Milliseconds (word_of_int l * Millisecond) = word_of_int l"
  using assms by (simp add: Milliseconds_def sint_ms signed_divide_int_def sgn_if)

lemma rand_Intn_range:
  assumes "0 < n"
  shows "0 \<le> rand_Intn n v" and "rand_Intn n v < n"
  using assms by (simp_all add: rand_Intn_def)

lemma sint_Intn_ms:
  assumes "0 < n" and "n \<le> 9000000000000"
  shows "sint (word_of_int (rand_Intn n v) * Millisecond :: 64 word) = rand_Intn n v * 1000000"
proof (rule sint_ms)
  show "0 \<le> rand_Intn n v" using assms(1) by (rule rand_Intn_range)
  show "rand_Intn n v < 9000000000000"
    using rand_Intn_range(2) [OF assms(1), of v] assms(2) by simp
qed

lemma Milliseconds_Intn:
  assumes "0 < n" and "n \<le> 9000000000000"
  shows "Milliseconds (word_of_int (rand_Intn n v) * Millisecond) = word_of_int (rand_Intn n v)"
proof (rule Milliseconds_ms)
  show "0 \<le> rand_Intn n v" using assms(1) by (rule rand_Intn_range)
  show "rand_Intn n v < 9000000000000"
    using rand_Intn_range(2) [OF assms(1), of v] assms(2) by simp
qed

lemma time_Sleep_Intn:
  assumes "0 < n" and "n \<le> 9000000000000"
  shows "time_Sleep (word_of_int (rand_Intn n v) * Millisecond) s =
    s\<lparr>clock := clock s + rand_Intn n v * 1000000,
      sleeps := sleeps s @ [word_of_int (rand_Intn n v) * Millisecond]\<rparr>"
  using rand_Intn_range(1) [OF assms(1), of v]
  by (simp add: time_Sleep_def sint_Intn_ms [OF assms])

lemma tracer_Start_eq:
  "tracer_Start g ctx name s =
     ((Some (ls_context (new_span g ctx name (next_id s) (clock s + int (pace s (reads s))))),
       new_span g ctx name (next_id s) (clock s + int (pace s (reads s)))),
      s\<lparr>clock := clock s + int (pace s (reads s)), reads := Suc (reads s),
        next_id := Suc (next_id s)\<rparr>)"
  by (simp add: tracer_Start_def time_Now_def Let_def)

lemma span_End_eq:
  "span_End sp s =
     s\<lparr>clock := clock s + int (pace s (reads s)), reads := Suc (reads s),
       spans := spans s @ [end_span sp (clock s + int (pace s (reads s)))]\<rparr>"
  by (simp add: span_End_def time_Now_def Let_def)

lemma span_block:
  assumes "0 < n" and "n \<le> 9000000000000"
  shows "span_End (snd (fst (tracer_Start g ctx name s)))
     (time_Sleep (word_of_int (rand_Intn n v) * Millisecond) (snd (tracer_Start g ctx name s))) =
    s\<lparr>clock := clock s + lapse s 0 + rand_Intn n v * 1000000 + lapse s 1,
      reads := reads s + 2, next_id := next_id s + 1,
      spans := spans s @
        [end_span (new_span g ctx name (next_id s) (clock s + lapse s 0))
           (clock s + lapse s 0 + rand_Intn n v * 1000000 + lapse s 1)],
      sleeps := sleeps s @ [word_of_int (rand_Intn n v) * Millisecond]\<rparr>"
  by (simp add: tracer_Start_eq span_End_eq time_Sleep_Intn [OF assms] lapse_def)

lemma logger_log_Info:
  assumes "LevelInfo \<le> lvl"
  shows "logger_log (logger_With logger kvs0) lvl msg kvs s =
     s\<lparr>clock := clock s + lapse s 0, reads := reads s + 1,
       logs := logs s @
         [\<lparr>lr_time = clock s + lapse s 0, lr_level = lvl, lr_msg = msg, lr_attrs = kvs0 @ kvs\<rparr>]\<rparr>"
  using assms
  by (simp add: logger_log_def time_Now_def Let_def logger_With_def logger_def lapse_def)

lemma workHandler_world:
  "snd (workHandler g d w r s) =
    (let l = rand_Intn 400 (latency_src d); c = rand_Intn 200 (cache_src d);
         t1 = clock s + lapse s 0;
         t2 = t1 + l * 1000000 + lapse s 1;
         t3 = t2 + lapse s 2;
         t4 = t3 + c * 1000000 + lapse s 3;
         t5 = t4 + lapse s 4
     in s\<lparr>clock := t5, reads := reads s + 5, next_id := next_id s + 2,
          spans := spans s @
            [end_span (new_span g (req_ctx r) ''simulate_work'' (next_id s) t1) t2,
             end_span (new_span g (req_ctx r) ''db_cache_lookup'' (next_id s + 1) t3) t4],
          logs := logs s @ [work_log_record d (SpanFromContext (req_ctx r)) t5],
          sleeps := sleeps s @
            [word_of_int l * Millisecond, word_of_int c * Millisecond]\<rparr>)"
  by (simp add: workHandler_def Let_def split_beta span_block Milliseconds_Intn
      logger_log_Info LevelInfo_def LevelError_def work_log_record_def lapse_def eval_nat_numeral)

lemma serve_work_world:
  assumes "req_path r = ''/work''"
  shows "snd (serve g d r s) =
    (let l = rand_Intn 400 (latency_src d); c = rand_Intn 200 (cache_src d);
         t0 = clock s + lapse s 0;
         root = new_span g (req_ctx r) ''work'' (next_id s) t0;
         ctx = Some (ls_context root);
         t1 = t0 + lapse s 1;
         t2 = t1 + l * 1000000 + lapse s 2;
         t3 = t2 + lapse s 3;
         t4 = t3 + c * 1000000 + lapse s 4;
         t5 = t4 + lapse s 5;
         t6 = t5 + lapse s 6
     in s\<lparr>clock := t6, reads := reads s + 7, next_id := next_id s + 3,
          spans := spans s @
            [end_span (new_span g ctx ''simulate_work'' (next_id s + 1) t1) t2,
             end_span (new_span g ctx ''db_cache_lookup'' (next_id s + 2) t3) t4,
             end_span root t6],
          logs := logs s @ [work_log_record d (ls_context root) t5],
          sleeps := sleeps s @
            [word_of_int l * Millisecond, word_of_int c * Millisecond]\<rparr>)"
  using assms
  by (simp add: serve_work otelhttp_NewHandler_def Let_def split_beta workHandler_world
      tracer_Start_eq span_End_eq SpanFromContext_def lapse_def eval_nat_numeral)

lemma request_spans_append: "spans s' = spans s @ xs \<Longrightarrow> request_spans s s' = xs"
  by (simp add: request_spans_def)

lemma request_logs_append: "logs s' = logs s @ xs \<Longrightarrow> request_logs s s' = xs"
  by (simp add: request_logs_def)

lemma request_sleeps_append: "sleeps s' = sleeps s @ xs \<Longrightarrow> request_sleeps s s' = xs"
  by (simp add: request_sleeps_def)

lemma serve_work_spans:
  assumes "req_path r = ''/work''"
  shows "request_spans s (snd (serve g d r s)) =
    (let l = rand_Intn 400 (latency_src d); c = rand_Intn 200 (cache_src d);
         t0 = clock s + lapse s 0;
         root = new_span g (req_ctx r) ''work'' (next_id s) t0;
         ctx = Some (ls_context root);
         t1 = t0 + lapse s 1;
         t2 = t1 + l * 1000000 + lapse s 2;
         t3 = t2 + lapse s 3;
         t4 = t3 + c * 1000000 + lapse s 4;
         t6 = t4 + lapse s 5 + lapse s 6
     in [end_span (new_span g ctx ''simulate_work'' (next_id s + 1) t1) t2,
         end_span (new_span g ctx ''db_cache_lookup'' (next_id s + 2) t3) t4,
         end_span root t6])"
  by (rule request_spans_append) (simp add: serve_work_world [OF assms] Let_def)

lemma serve_work_logs:
  assumes "req_path r = ''/work''"
  shows "request_logs s (snd (serve g d r s)) =
    [work_log_record d
       (ls_context (new_span g (req_ctx r) ''work'' (next_id s) (clock s + lapse s 0)))
       (clock s + lapse s 0 + lapse s 1 + rand_Intn 400 (latency_src d) * 1000000 + lapse s 2 +
        lapse s 3 + rand_Intn 200 (cache_src d) * 1000000 + lapse s 4 + lapse s 5)]"
  by (rule request_logs_append) (simp add: serve_work_world [OF assms] Let_def)

lemma serve_work_sleeps:
  assumes "req_path r = ''/work''"
  shows "request_sleeps s (snd (serve g d r s)) =
    [word_of_int (rand_Intn 400 (latency_src d)) * Millisecond,
     word_of_int (rand_Intn 200 (cache_src d)) * Millisecond]"
  by (rule request_sleeps_append) (simp add: serve_work_world [OF assms] Let_def)

lemma serve_work_status:
  assumes "req_path r = ''/work''"
  shows "response_status (fst (serve g d r s)) = (if outcome_draw d < float32_0_2 then 500 else 200)"
  using assms
  by (simp add: serve_work otelhttp_writer workHandler_writer http_Error_new Write_new)

lemma new_span_simps:
  "ls_name (new_span g ctx name n t) = name"
  "ls_start (new_span g ctx name n t) = t"
  by (simp_all add: new_span_def Let_def)

lemma new_span_valid:
  assumes "ids_valid g n"
  shows "span_context_IsValid (ls_context (new_span g ctx name n t))"
  using assms by (simp add: new_span_def Let_def ids_valid_def span_context_IsValid_def)

lemma new_span_child:
  assumes "span_context_IsValid sc"
  shows "ls_context (new_span g (Some sc) name n t) =
           \<lparr>sc_trace_id = sc_trace_id sc, sc_span_id = NewSpanID g n\<rparr>"
    and "ls_parent (new_span g (Some sc) name n t) = Some (sc_span_id sc)"
  using assms by (simp_all add: new_span_def Let_def SpanFromContext_def)

lemma new_span_root:
  "ls_parent (new_span g None name n t) = None"
  by (simp add: new_span_def Let_def SpanFromContext_def span_context_IsValid_def)

lemma end_span_simps:
  "sp_name (end_span sp t) = ls_name sp"
  "sp_context (end_span sp t) = ls_context sp"
  "sp_parent (end_span sp t) = ls_parent sp"
  "sp_start (end_span sp t) = ls_start sp"
  "sp_end (end_span sp t) = t"
  by (simp_all add: end_span_def)

lemma work_request_path: "req_path work_request = ''/work''"
  by (simp add: work_request_def)

lemma healthz_request_path: "req_path healthz_request = ''/healthz''"
  by (simp add: healthz_request_def)

lemma failing_draws_valid: "valid_draws failing_draws"
  unfolding valid_draws_def failing_draws_def is_float32_unit_def
  by (simp, intro bexI [of _ 3]) simp_all

lemma passing_draws_valid: "valid_draws passing_draws"
  unfolding valid_draws_def passing_draws_def is_float32_unit_def
  by (simp, intro bexI [of _ 1]) simp_all

lemma serve_healthz:
  "req_path r = ''/healthz'' \<Longrightarrow>
   serve g d r s = otelhttp_NewHandler g healthzHandler ''healthz'' new_response_writer r s"
  by (simp add: serve_def)

lemma serve_healthz_world:
  assumes "req_path r = ''/healthz''"
  shows "snd (serve g d r s) =
    s\<lparr>clock := clock s + lapse s 0 + lapse s 1, reads := reads s + 2,
      next_id := next_id s + 1,
      spans := spans s @
        [end_span (new_span g (req_ctx r) ''healthz'' (next_id s) (clock s + lapse s 0))
           (clock s + lapse s 0 + lapse s 1)]\<rparr>"
  using assms
  by (simp add: serve_healthz otelhttp_NewHandler_def healthzHandler_def tracer_Start_eq
      span_End_eq Let_def lapse_def)

lemma workHandler_logs_any_generator:
  "request_logs s (snd (workHandler g d w r s)) =
    [work_log_record d (SpanFromContext (req_ctx r))
       (clock s + lapse s 0 + rand_Intn 400 (latency_src d) * 1000000 + lapse s 1 + lapse s 2 +
        rand_Intn 200 (cache_src d) * 1000000 + lapse s 3 + lapse s 4)]"
  by (rule request_logs_append) (simp add: workHandler_world Let_def)

lemma exporter_New_insecure_endpoint:
  "exporter_New [WithInsecure, WithEndpoint e] = \<lparr>ec_endpoint = e, ec_insecure = True\<rparr>"
  by (simp add: exporter_New_def default_exporter_config_def)

lemma residue_count:
  assumes "0 < n" and "k < n"
  shows "card {v::nat. v < n * q \<and> v mod n = k} = q"
proof -
  have "{v. v < n * q \<and> v mod n = k} = (\<lambda>j. j * n + k) ` {..<q}"
  proof (intro set_eqI iffI)
    fix v assume "v \<in> {v. v < n * q \<and> v mod n = k}"
    then have lt: "v < n * q" and md: "v mod n = k" by simp_all
    have "v div n < q"
      using lt assms(1) by (simp add: less_mult_imp_div_less mult.commute)
    moreover have "v = (v div n) * n + k"
      using md by (metis div_mult_mod_eq)
    ultimately show "v \<in> (\<lambda>j. j * n + k) ` {..<q}" by blast
  next
    fix v assume "v \<in> (\<lambda>j. j * n + k) ` {..<q}"
    then obtain j where j: "j < q" and v: "v = j * n + k" by blast
    have "j * n + k < Suc j * n" using assms(2) by simp
    also have "\<dots> \<le> q * n" using j by (intro mult_le_mono1) simp
    finally have "v < n * q" by (simp add: v mult.commute)
    moreover have "v mod n = k" using assms(2) by (simp add: v)
    ultimately show "v \<in> {v. v < n * q \<and> v mod n = k}" by simp
  qed
  moreover have "inj_on (\<lambda>j. j * n + k) {..<q}"
    using assms(1) by (auto simp: inj_on_def)
  ultimately show ?thesis by (simp add: card_image)
qed

lemma Int31n_max_400: "Int31n_max 400 = 2147483599"
  by (simp add: Int31n_max_def)

lemma rand_Intn_400_eq: "(rand_Intn 400 v = int k) = (v mod 400 = k)"
proof -
  have "rand_Intn 400 v = int (v mod 400)"
    unfolding rand_Intn_def by (simp add: zmod_int)
  then show ?thesis by simp
qed

lemma Intn_400_uniform:
  assumes "k < 400"
  shows "card {v. v \<le> Int31n_max 400 \<and> rand_Intn 400 v = int k} = 5368709"
proof -
  have bound: "(v \<le> Int31n_max 400) = (v < 400 * 5368709)" for v
    unfolding Int31n_max_400 by arith
  have "card {v::nat. v < 400 * 5368709 \<and> v mod 400 = k} = 5368709"
    using _ assms by (rule residue_count) simp
  then show ?thesis
    by (simp only: bound rand_Intn_400_eq)
qed

lemma late_world_lapse: "lapse late_world i = 370099"
  by (simp add: lapse_def late_world_def)

lemma failing_draws_Intn:
  "rand_Intn 400 (latency_src failing_draws) = 50"
  "rand_Intn 200 (cache_src failing_draws) = 7"
  by (simp_all add: rand_Intn_def failing_draws_def)

lemma passing_draws_Intn:
  "rand_Intn 400 (latency_src passing_draws) = 50"
  "rand_Intn 200 (cache_src passing_draws) = 7"
  by (simp_all add: rand_Intn_def passing_draws_def)

lemma large_draws_Intn:
  "rand_Intn 400 (latency_src large_draws) = 399"
  "rand_Intn 200 (cache_src large_draws) = 7"
  by (simp_all add: rand_Intn_def large_draws_def)

lemma sint_50_ms: "sint (50 * Millisecond :: duration) = 50000000"
  using sint_ms [of 50] by simp

lemma Milliseconds_50_ms: "Milliseconds (50 * Millisecond) = 50"
  using Milliseconds_ms [of 50] by simp

section \<open>The work route: response\<close>

text \<open>
  Claim C1, amended.  A request to \<open>/work\<close> has two outcomes, chosen by the outcome
  draw alone: below 0.20 the response is status 500 with the body
  \<open>Internal Server Error\<close> followed by a newline (\<open>http.Error\<close> prints the message as
  a line), otherwise status 200 with the body \<open>Work completed\<close> followed by a newline.
\<close>

theorem work_response_by_outcome:
  assumes "req_path r = ''/work''" and "valid_draws d"
  shows "(outcome_draw d < 1 / 5 \<longrightarrow>
            response_status (fst (serve g d r s)) = 500 \<and>
            rw_body (fst (serve g d r s)) = ''Internal Server Error'' @ [CHR 0x0A]) \<and>
         (\<not> outcome_draw d < 1 / 5 \<longrightarrow>
            response_status (fst (serve g d r s)) = 200 \<and>
            rw_body (fst (serve g d r s)) = ''Work completed'' @ [CHR 0x0A])"
proof -
  from assms(2) have "is_float32_unit (outcome_draw d)"
    by (simp add: valid_draws_def)
  then have thr: "(outcome_draw d < float32_0_2) = (outcome_draw d < 1 / 5)"
    by (rule float32_threshold)
  show ?thesis
    using assms(1) thr
    by (simp add: serve_work otelhttp_writer workHandler_writer http_Error_new Write_new)
qed

theorem work_response_by_outcome_witness:
  "valid_draws failing_draws \<and> outcome_draw failing_draws < 1 / 5 \<and>
   response_status (fst (serve counting_ids failing_draws work_request initial_world)) = 500 \<and>
   rw_body (fst (serve counting_ids failing_draws work_request initial_world)) =
     ''Internal Server Error'' @ [CHR 0x0A] \<and>
   valid_draws passing_draws \<and> \<not> outcome_draw passing_draws < 1 / 5 \<and>
   response_status (fst (serve counting_ids passing_draws work_request initial_world)) = 200 \<and>
   rw_body (fst (serve counting_ids passing_draws work_request initial_world)) =
     ''Work completed'' @ [CHR 0x0A]"
proof -
  have f: "outcome_draw failing_draws < 1 / 5" by (simp add: failing_draws_def)
  have q: "\<not> outcome_draw passing_draws < 1 / 5" by (simp add: passing_draws_def)
  show ?thesis
    using work_response_by_outcome [OF work_request_path failing_draws_valid,
        of counting_ids initial_world]
      work_response_by_outcome [OF work_request_path passing_draws_valid,
        of counting_ids initial_world]
      f q failing_draws_valid passing_draws_valid
    by simp
qed

text \<open>
  The error body is not the bare message: at an outcome draw of 1/8 the response is a
  500 whose body differs from \<open>Internal Server Error\<close>.
\<close>

theorem work_error_body_ends_in_newline:
  "valid_draws failing_draws \<and> outcome_draw failing_draws < 1 / 5 \<and>
   response_status (fst (serve counting_ids failing_draws work_request initial_world)) = 500 \<and>
   rw_body (fst (serve counting_ids failing_draws work_request initial_world)) \<noteq>
     ''Internal Server Error''"
proof -
  have "rw_body (fst (serve counting_ids failing_draws work_request initial_world)) =
          ''Internal Server Error'' @ [CHR 0x0A]"
    by (simp add: serve_def work_request_def otelhttp_writer workHandler_writer http_Error_new
        failing_draws_def float32_0_2_def)
  moreover have "response_status (fst (serve counting_ids failing_draws work_request initial_world)) = 500"
    by (simp add: serve_def work_request_def otelhttp_writer workHandler_writer http_Error_new
        failing_draws_def float32_0_2_def)
  moreover have "outcome_draw failing_draws < 1 / 5" by (simp add: failing_draws_def)
  ultimately show ?thesis using failing_draws_valid by simp
qed

section \<open>The work route: trace correlation\<close>

text \<open>
  Claim C2.  The spans ended during a request to \<open>/work\<close> are \<open>simulate_work\<close>,
  \<open>db_cache_lookup\<close> and the root span \<open>work\<close>; all three carry the root span's trace
  id, and the \<open>trace_id\<close> attribute of the one log record is the text of that trace id.
  The identifiers handed out for the root span are taken to be non-zero.
\<close>

theorem work_request_shares_trace_id:
  assumes "req_path r = ''/work''" and "ids_valid g (next_id s)"
  shows "let s' = snd (serve g d r s);
             root = last (request_spans s s');
             T = sc_trace_id (sp_context root)
         in map sp_name (request_spans s s') = [''simulate_work'', ''db_cache_lookup'', ''work''] \<and>
            (\<forall>sp \<in> set (request_spans s s'). sc_trace_id (sp_context sp) = T) \<and>
            length (request_logs s s') = 1 \<and>
            (\<forall>lr \<in> set (request_logs s s').
               map_of (lr_attrs lr) ''trace_id'' = Some (StringValue (TraceID_String T)))"
proof -
  have v: "span_context_IsValid
      (ls_context (new_span g (req_ctx r) ''work'' (next_id s) (clock s + lapse s 0)))"
    using assms(2) by (rule new_span_valid)
  show ?thesis
    by (simp add: Let_def serve_work_spans [OF assms(1)] serve_work_logs [OF assms(1)]
        end_span_simps new_span_simps new_span_child [OF v] work_log_record_def)
qed

text \<open>
  With the counting generator every span of the request carries trace id 1.
\<close>

theorem work_request_shares_trace_id_witness:
  "req_path work_request = ''/work'' \<and>
   ids_valid counting_ids (next_id initial_world) \<and>
   map (\<lambda>sp. (sp_name sp, sc_trace_id (sp_context sp)))
     (request_spans initial_world (snd (serve counting_ids failing_draws work_request initial_world))) =
     [(''simulate_work'', 1), (''db_cache_lookup'', 1), (''work'', 1)] \<and>
   map (\<lambda>lr. map_of (lr_attrs lr) ''trace_id'')
     (request_logs initial_world (snd (serve counting_ids failing_draws work_request initial_world))) =
     [Some (StringValue (TraceID_String 1))]"
proof -
  have i: "ids_valid counting_ids (next_id initial_world)"
    by (simp add: ids_valid_def counting_ids_def initial_world_def)
  have v: "span_context_IsValid
      (ls_context (new_span counting_ids (req_ctx work_request) ''work'' (next_id initial_world)
         (clock initial_world + lapse initial_world 0)))"
    using i by (rule new_span_valid)
  have r: "sc_trace_id (ls_context (new_span counting_ids (req_ctx work_request) ''work''
      (next_id initial_world) (clock initial_world + lapse initial_world 0))) = 1"
    by (simp add: new_span_def Let_def SpanFromContext_def work_request_def counting_ids_def
        initial_world_def span_context_IsValid_def)
  show ?thesis
    using work_request_shares_trace_id [OF work_request_path i, where d = failing_draws]
      work_request_path i
    by (simp add: Let_def serve_work_spans [OF work_request_path]
        serve_work_logs [OF work_request_path] end_span_simps new_span_simps
        new_span_child [OF v] work_log_record_def r)
qed

section \<open>The work route: simulated latency\<close>

text \<open>
  Claim C3, amended.  The latency is \<open>rand.Intn(400)\<close> milliseconds: a duration from 0 up
  to, not including, 400 ms, each of the 400 values being the result for equally many of
  the source values that \<open>Int31n\<close> keeps.  The handler sleeps for that duration inside the
  span \<open>simulate_work\<close>, whose length is the duration plus the time that passes before
  the clock is read at the span's end; it is at least the duration, not the duration
  itself.  The \<open>latency_ms\<close> attribute of the log record is the duration in milliseconds,
  whatever the outcome draw.
\<close>

theorem simulate_work_span_covers_sleep:
  assumes "req_path r = ''/work''"
  shows "let s' = snd (serve g d r s);
             sw = request_spans s s' ! 0;
             lr = hd (request_logs s s');
             latency = (word_of_int (rand_Intn 400 (latency_src d)) * Millisecond :: duration)
         in 0 \<le> sint latency \<and> sint latency < 400 * 1000000 \<and>
            (\<forall>k \<in> {..<400}.
               card {v. v \<le> Int31n_max 400 \<and> rand_Intn 400 v = int k} = 5368709) \<and>
            sp_name sw = ''simulate_work'' \<and>
            request_sleeps s s' ! 0 = latency \<and>
            sp_end sw - sp_start sw = sint latency + lapse s 2 \<and>
            sint latency \<le> sp_end sw - sp_start sw \<and>
            map_of (lr_attrs lr) ''latency_ms'' = Some (Int64Value (Milliseconds latency)) \<and>
            sint (Milliseconds latency) * 1000000 = sint latency"
proof -
  have l: "0 \<le> rand_Intn 400 (latency_src d)" "rand_Intn 400 (latency_src d) < 400"
    by (simp_all add: rand_Intn_range)
  have a: "sint (word_of_int (rand_Intn 400 (latency_src d)) * Millisecond :: duration) =
      rand_Intn 400 (latency_src d) * 1000000"
    by (rule sint_Intn_ms) simp_all
  have b: "Milliseconds (word_of_int (rand_Intn 400 (latency_src d)) * Millisecond) =
      word_of_int (rand_Intn 400 (latency_src d))"
    by (rule Milliseconds_Intn) simp_all
  have c: "sint (word_of_int (rand_Intn 400 (latency_src d)) :: 64 word) =
      rand_Intn 400 (latency_src d)"
    using l by (simp only: sint_sbintrunc') (simp add: signed_take_bit_int_eq_self)
  have p: "0 \<le> lapse s 2" by (simp add: lapse_def)
  show ?thesis
    using l p
    by (simp add: Let_def serve_work_spans [OF assms] serve_work_logs [OF assms]
        serve_work_sleeps [OF assms] a b c end_span_simps new_span_simps work_log_record_def
        Intn_400_uniform)
qed

text \<open>
  A latency of 50 ms in a world where 370099 ns pass before each reading of the clock.
\<close>

theorem simulate_work_span_covers_sleep_witness:
  "req_path work_request = ''/work'' \<and>
   sp_name (request_spans late_world
      (snd (serve counting_ids failing_draws work_request late_world)) ! 0) = ''simulate_work'' \<and>
   request_sleeps late_world
      (snd (serve counting_ids failing_draws work_request late_world)) ! 0 = 50 * Millisecond \<and>
   sp_end (request_spans late_world
      (snd (serve counting_ids failing_draws work_request late_world)) ! 0) -
   sp_start (request_spans late_world
      (snd (serve counting_ids failing_draws work_request late_world)) ! 0) = 50370099 \<and>
   map_of (lr_attrs (hd (request_logs late_world
      (snd (serve counting_ids failing_draws work_request late_world))))) ''latency_ms'' =
     Some (Int64Value 50)"
proof -
  note a = simulate_work_span_covers_sleep [OF work_request_path,
      where s = late_world and g = counting_ids and d = failing_draws]
  from a show ?thesis
    using work_request_path
    by (simp add: Let_def failing_draws_Intn sint_50_ms Milliseconds_50_ms late_world_lapse)
qed

text \<open>
  The span is not open for exactly the sampled duration, and \<open>latency_ms\<close> is not the
  time the span was open: with 370099 ns before each reading of the clock a latency of
  50 ms gives a span of 50370099 ns, and the record says 50.
\<close>

theorem simulate_work_span_outlasts_latency:
  "sp_name (request_spans late_world
      (snd (serve counting_ids failing_draws work_request late_world)) ! 0) = ''simulate_work'' \<and>
   sp_end (request_spans late_world
      (snd (serve counting_ids failing_draws work_request late_world)) ! 0) -
   sp_start (request_spans late_world
      (snd (serve counting_ids failing_draws work_request late_world)) ! 0) = 50370099 \<and>
   sint (word_of_int (rand_Intn 400 (latency_src failing_draws)) * Millisecond :: duration) =
     50000000 \<and>
   map_of (lr_attrs (hd (request_logs late_world
      (snd (serve counting_ids failing_draws work_request late_world))))) ''latency_ms'' =
     Some (Int64Value 50) \<and>
   sp_end (request_spans late_world
      (snd (serve counting_ids failing_draws work_request late_world)) ! 0) -
   sp_start (request_spans late_world
      (snd (serve counting_ids failing_draws work_request late_world)) ! 0) \<noteq>
   sint (word_of_int (rand_Intn 400 (latency_src failing_draws)) * Millisecond :: duration)"
  by (simp add: Let_def serve_work_spans [OF work_request_path]
      serve_work_logs [OF work_request_path] end_span_simps new_span_simps work_log_record_def
      failing_draws_Intn sint_50_ms late_world_lapse)

section \<open>The liveness route\<close>

text \<open>
  Claim C4, amended.  Every request to \<open>/healthz\<close> is answered with status 200 and
  body \<open>OK\<close>, whatever the state of the world and the draws; the handler writes no log
  record, does not sleep and starts no span of its own, and the instrumentation wrapper
  that \<open>main\<close> puts around the route ends exactly one span, named \<open>healthz\<close>.  The
  context of a request as the server delivers it carries no span, and then that span is a
  root span.
\<close>

theorem healthz_response:
  assumes "req_path r = ''/healthz''"
  shows "response_status (fst (serve g d r s)) = 200 \<and>
         rw_body (fst (serve g d r s)) = ''OK'' \<and>
         logs (snd (serve g d r s)) = logs s \<and>
         sleeps (snd (serve g d r s)) = sleeps s \<and>
         map sp_name (request_spans s (snd (serve g d r s))) = [''healthz''] \<and>
         (req_ctx r = None \<longrightarrow>
            map sp_parent (request_spans s (snd (serve g d r s))) = [None])"
proof -
  have "fst (serve g d r s) = Write ''OK'' (WriteHeader 200 new_response_writer)"
    using assms by (simp add: serve_healthz otelhttp_writer healthzHandler_def)
  then have "response_status (fst (serve g d r s)) = 200" "rw_body (fst (serve g d r s)) = ''OK''"
    by (simp_all add: Write_def WriteHeader_def new_response_writer_def response_status_def Let_def)
  note resp = this
  have sp: "request_spans s (snd (serve g d r s)) =
      [end_span (new_span g (req_ctx r) ''healthz'' (next_id s) (clock s + lapse s 0))
         (clock s + lapse s 0 + lapse s 1)]"
    by (rule request_spans_append) (simp add: serve_healthz_world [OF assms])
  have unchanged: "logs (snd (serve g d r s)) = logs s" "sleeps (snd (serve g d r s)) = sleeps s"
    by (simp_all add: serve_healthz_world [OF assms])
  show ?thesis
    by (simp add: resp sp unchanged end_span_simps new_span_simps new_span_root)
qed

text \<open>
  The liveness route after a request to \<open>/work\<close> that failed with status 500.
\<close>

theorem healthz_response_witness:
  "req_path healthz_request = ''/healthz'' \<and> req_ctx healthz_request = None \<and>
   map (\<lambda>lr. map_of (lr_attrs lr) ''status'')
     (logs (snd (serve counting_ids failing_draws work_request late_world))) =
     [Some (Int64Value 500)] \<and>
   response_status (fst (serve counting_ids passing_draws healthz_request
     (snd (serve counting_ids failing_draws work_request late_world)))) = 200 \<and>
   rw_body (fst (serve counting_ids passing_draws healthz_request
     (snd (serve counting_ids failing_draws work_request late_world)))) = ''OK'' \<and>
   map (\<lambda>sp. (sp_name sp, sp_parent sp))
     (request_spans (snd (serve counting_ids failing_draws work_request late_world))
        (snd (serve counting_ids passing_draws healthz_request
           (snd (serve counting_ids failing_draws work_request late_world))))) =
     [(''healthz'', None)]"
proof -
  have c: "req_ctx healthz_request = None" by (simp add: healthz_request_def)
  have prior: "map (\<lambda>lr. map_of (lr_attrs lr) ''status'')
     (logs (snd (serve counting_ids failing_draws work_request late_world))) =
     [Some (Int64Value 500)]"
    by (simp add: serve_work_world [OF work_request_path] Let_def work_log_record_def
        failing_draws_def float32_0_2_def)
      (simp add: late_world_def)
  define s where "s = snd (serve counting_ids failing_draws work_request late_world)"
  note a = healthz_response [OF healthz_request_path, where g = counting_ids
      and d = passing_draws and s = s]
  from a c have n: "map sp_name (request_spans s
        (snd (serve counting_ids passing_draws healthz_request s))) = [''healthz'']"
    and p: "map sp_parent (request_spans s
        (snd (serve counting_ids passing_draws healthz_request s))) = [None]"
    and st: "response_status (fst (serve counting_ids passing_draws healthz_request s)) = 200"
    and bd: "rw_body (fst (serve counting_ids passing_draws healthz_request s)) = ''OK''"
    by simp_all
  from n obtain x where x: "request_spans s
        (snd (serve counting_ids passing_draws healthz_request s)) = [x]"
    by auto
  from n p have "map (\<lambda>sp. (sp_name sp, sp_parent sp)) (request_spans s
        (snd (serve counting_ids passing_draws healthz_request s))) = [(''healthz'', None)]"
    by (simp add: x)
  with st bd prior show ?thesis
    using healthz_request_path c unfolding s_def by simp
qed

text \<open>
  A request to \<open>/healthz\<close> does produce a span: the route is registered through
  \<open>otelhttp.NewHandler\<close> under the name \<open>healthz\<close>, and the span has no parent.
\<close>

theorem healthz_emits_root_span:
  "req_path healthz_request = ''/healthz'' \<and>
   request_spans initial_world
     (snd (serve counting_ids failing_draws healthz_request initial_world)) \<noteq> [] \<and>
   map (\<lambda>sp. (sp_name sp, sp_parent sp)) (request_spans initial_world
     (snd (serve counting_ids failing_draws healthz_request initial_world))) =
     [(''healthz'', None)]"
proof -
  have "request_spans initial_world
      (snd (serve counting_ids failing_draws healthz_request initial_world)) =
      [end_span (new_span counting_ids (req_ctx healthz_request) ''healthz''
         (next_id initial_world) (clock initial_world + lapse initial_world 0))
         (clock initial_world + lapse initial_world 0 + lapse initial_world 1)]"
    by (rule request_spans_append) (simp add: serve_healthz_world [OF healthz_request_path])
  moreover have "req_ctx healthz_request = None" by (simp add: healthz_request_def)
  ultimately show ?thesis
    by (simp add: healthz_request_path end_span_simps new_span_simps new_span_root)
qed

section \<open>The work route: log record\<close>

text \<open>
  Claim C5.  A request to \<open>/work\<close> writes exactly one log record: at error level with
  status 500 when the outcome draw is below 0.20, at info level with status 200 otherwise,
  each time with the \<open>latency_ms\<close> attribute; the \<open>status\<close> attribute is the HTTP
  status of the response.
\<close>

theorem work_log_record_matches_response:
  assumes "req_path r = ''/work''" and "valid_draws d"
  shows "request_logs s (snd (serve g d r s)) =
    [\<lparr>lr_time = clock s + lapse s 0 + lapse s 1 + rand_Intn 400 (latency_src d) * 1000000 +
        lapse s 2 + lapse s 3 + rand_Intn 200 (cache_src d) * 1000000 + lapse s 4 + lapse s 5,
      lr_level = (if outcome_draw d < 1 / 5 then LevelError else LevelInfo),
      lr_msg = (if outcome_draw d < 1 / 5 then ''request failed'' else ''request succeeded''),
      lr_attrs =
        [(''trace_id'', StringValue (TraceID_String (sc_trace_id
            (ls_context (new_span g (req_ctx r) ''work'' (next_id s) (clock s + lapse s 0)))))),
         (''span_id'', StringValue (SpanID_String (sc_span_id
            (ls_context (new_span g (req_ctx r) ''work'' (next_id s) (clock s + lapse s 0)))))),
         (''latency_ms'', Int64Value (word_of_int (rand_Intn 400 (latency_src d)))),
         (''status'', Int64Value (word_of_nat (response_status (fst (serve g d r s)))))]\<rparr>] \<and>
    response_status (fst (serve g d r s)) = (if outcome_draw d < 1 / 5 then 500 else 200)"
proof -
  from assms(2) have "is_float32_unit (outcome_draw d)"
    by (simp add: valid_draws_def)
  then have thr: "(outcome_draw d < float32_0_2) = (outcome_draw d < 1 / 5)"
    by (rule float32_threshold)
  show ?thesis
    by (simp add: serve_work_logs [OF assms(1)] serve_work_status [OF assms(1)]
        work_log_record_def thr)
qed

text \<open>
  The two outcomes of the record at a latency of 50 ms.
\<close>

theorem work_log_record_matches_response_witness:
  "req_path work_request = ''/work'' \<and> valid_draws failing_draws \<and>
   map (\<lambda>lr. (lr_level lr, map_of (lr_attrs lr) ''latency_ms'', map_of (lr_attrs lr) ''status''))
     (request_logs initial_world (snd (serve counting_ids failing_draws work_request initial_world))) =
     [(LevelError, Some (Int64Value 50), Some (Int64Value 500))] \<and>
   response_status (fst (serve counting_ids failing_draws work_request initial_world)) = 500 \<and>
   valid_draws passing_draws \<and>
   map (\<lambda>lr. (lr_level lr, map_of (lr_attrs lr) ''latency_ms'', map_of (lr_attrs lr) ''status''))
     (request_logs initial_world (snd (serve counting_ids passing_draws work_request initial_world))) =
     [(LevelInfo, Some (Int64Value 50), Some (Int64Value 200))] \<and>
   response_status (fst (serve counting_ids passing_draws work_request initial_world)) = 200"
proof -
  note a = work_log_record_matches_response [OF work_request_path failing_draws_valid,
      where s = initial_world and g = counting_ids]
  note b = work_log_record_matches_response [OF work_request_path passing_draws_valid,
      where s = initial_world and g = counting_ids]
  have f: "outcome_draw failing_draws < 1 / 5" by (simp add: failing_draws_def)
  have q: "\<not> outcome_draw passing_draws < 1 / 5" by (simp add: passing_draws_def)
  from a f have a': "map (\<lambda>lr. (lr_level lr, map_of (lr_attrs lr) ''latency_ms'', map_of (lr_attrs lr) ''status''))
     (request_logs initial_world (snd (serve counting_ids failing_draws work_request initial_world))) =
     [(LevelError, Some (Int64Value 50), Some (Int64Value 500))]"
    and a'': "response_status (fst (serve counting_ids failing_draws work_request initial_world)) = 500"
    by (simp_all add: failing_draws_Intn)
  from b q have b': "map (\<lambda>lr. (lr_level lr, map_of (lr_attrs lr) ''latency_ms'', map_of (lr_attrs lr) ''status''))
     (request_logs initial_world (snd (serve counting_ids passing_draws work_request initial_world))) =
     [(LevelInfo, Some (Int64Value 50), Some (Int64Value 200))]"
    and b'': "response_status (fst (serve counting_ids passing_draws work_request initial_world)) = 200"
    by (simp_all add: passing_draws_Intn)
  show ?thesis
    using a' a'' b' b'' work_request_path failing_draws_valid passing_draws_valid by simp
qed

section \<open>Independence of the outcome\<close>

text \<open>
  Claim C6.  Two requests to \<open>/work\<close> with the same outcome draw get the same
  response, whatever their latency draws, generators and worlds.  A latency of 0 goes
  through the same steps: the response is unchanged, the same three spans are ended, the
  sleep adds nothing to the length of the span \<open>simulate_work\<close> and the record says
  \<open>latency_ms\<close> 0 at the level the outcome draw gives.
\<close>

theorem outcome_independent_of_latency:
  assumes "req_path r1 = ''/work''" and "req_path r2 = ''/work''"
    and "outcome_draw d1 = outcome_draw d2"
  shows "fst (serve g1 d1 r1 s1) = fst (serve g2 d2 r2 s2) \<and>
         (let d0 = d1\<lparr>latency_src := 0\<rparr>; s' = snd (serve g1 d0 r1 s1)
          in fst (serve g1 d0 r1 s1) = fst (serve g1 d1 r1 s1) \<and>
             map sp_name (request_spans s1 s') = [''simulate_work'', ''db_cache_lookup'', ''work''] \<and>
             sp_end (request_spans s1 s' ! 0) - sp_start (request_spans s1 s' ! 0) = lapse s1 2 \<and>
             map (\<lambda>lr. (lr_level lr, map_of (lr_attrs lr) ''latency_ms'')) (request_logs s1 s') =
               [(lr_level (hd (request_logs s1 (snd (serve g1 d1 r1 s1)))), Some (Int64Value 0))])"
proof -
  have resp: "fst (serve g1 d1 r1 s1) = fst (serve g2 d2 r2 s2)"
    "fst (serve g1 (d1\<lparr>latency_src := 0\<rparr>) r1 s1) = fst (serve g1 d1 r1 s1)"
    using assms by (simp_all add: serve_work otelhttp_writer workHandler_writer)
  have z: "rand_Intn 400 0 = 0" by (simp add: rand_Intn_def)
  show ?thesis
    by (simp add: Let_def resp serve_work_spans [OF assms(1)] serve_work_logs [OF assms(1)]
        end_span_simps new_span_simps work_log_record_def z)
qed

text \<open>
  Latencies of 50 ms and 0 ms with the same outcome draw both end in status 500.
\<close>

theorem outcome_independent_of_latency_witness:
  "req_path work_request = ''/work'' \<and>
   outcome_draw failing_draws = outcome_draw zero_latency_draws \<and>
   rand_Intn 400 (latency_src failing_draws) \<noteq> rand_Intn 400 (latency_src zero_latency_draws) \<and>
   response_status (fst (serve counting_ids failing_draws work_request initial_world)) = 500 \<and>
   response_status (fst (serve counting_ids zero_latency_draws work_request late_world)) = 500"
proof -
  have o: "outcome_draw failing_draws = outcome_draw zero_latency_draws"
    by (simp add: failing_draws_def zero_latency_draws_def)
  have l: "rand_Intn 400 (latency_src failing_draws) \<noteq>
      rand_Intn 400 (latency_src zero_latency_draws)"
    by (simp add: failing_draws_Intn) (simp add: rand_Intn_def zero_latency_draws_def)
  have f: "response_status (fst (serve counting_ids failing_draws work_request initial_world)) = 500"
    by (simp add: serve_work_status [OF work_request_path] failing_draws_def float32_0_2_def)
  from outcome_independent_of_latency [OF work_request_path work_request_path o,
      where ?g1.0 = counting_ids and ?g2.0 = counting_ids and ?s1.0 = initial_world
        and ?s2.0 = late_world]
  have "fst (serve counting_ids failing_draws work_request initial_world) =
        fst (serve counting_ids zero_latency_draws work_request late_world)"
    by simp
  with f show ?thesis
    using o l work_request_path by simp
qed

section \<open>Exporter endpoint\<close>

text \<open>
  Claim C7.  When initialisation succeeds, the trace exporter and the metric exporter are
  bound to the same endpoint over an insecure transport: \<open>otel-collector:4317\<close> when
  \<open>OTEL_EXPORTER_OTLP_ENDPOINT\<close> is unset or empty, its value otherwise.
\<close>

theorem exporters_bound_to_endpoint:
  assumes "initOTel sdk env = Inr p"
  shows "ec_endpoint (tp_exporter p) =
           (if os_Getenv env ''OTEL_EXPORTER_OTLP_ENDPOINT'' = [] then ''otel-collector:4317''
            else os_Getenv env ''OTEL_EXPORTER_OTLP_ENDPOINT'') \<and>
         ec_endpoint (mp_exporter p) = ec_endpoint (tp_exporter p) \<and>
         ec_insecure (tp_exporter p) \<and> ec_insecure (mp_exporter p) \<and>
         (env ''OTEL_EXPORTER_OTLP_ENDPOINT'' = None \<longrightarrow>
            ec_endpoint (tp_exporter p) = ''otel-collector:4317'') \<and>
         (\<forall>v. env ''OTEL_EXPORTER_OTLP_ENDPOINT'' = Some v \<longrightarrow> v \<noteq> [] \<longrightarrow>
            ec_endpoint (tp_exporter p) = v)"
  using assms
  by (auto simp: initOTel_def Let_def exporter_New_insecure_endpoint os_Getenv_def
      split: option.splits if_splits)

text \<open>
  Initialisation with the variable unset and with it set.
\<close>

theorem exporters_bound_to_endpoint_witness:
  "initOTel no_sdk_errors env_unset =
     Inr \<lparr>tp_exporter = \<lparr>ec_endpoint = ''otel-collector:4317'', ec_insecure = True\<rparr>,
          tp_resource = \<lparr>service_name = ''sample-app'', service_version = ''1.0.0''\<rparr>,
          mp_exporter = \<lparr>ec_endpoint = ''otel-collector:4317'', ec_insecure = True\<rparr>,
          mp_resource = \<lparr>service_name = ''sample-app'', service_version = ''1.0.0''\<rparr>\<rparr> \<and>
   initOTel no_sdk_errors env_custom =
     Inr \<lparr>tp_exporter = \<lparr>ec_endpoint = ''collector.internal:4317'', ec_insecure = True\<rparr>,
          tp_resource = \<lparr>service_name = ''sample-app'', service_version = ''1.0.0''\<rparr>,
          mp_exporter = \<lparr>ec_endpoint = ''collector.internal:4317'', ec_insecure = True\<rparr>,
          mp_resource = \<lparr>service_name = ''sample-app'', service_version = ''1.0.0''\<rparr>\<rparr>"
proof -
  have a: "initOTel no_sdk_errors env_unset =
     Inr \<lparr>tp_exporter = \<lparr>ec_endpoint = ''otel-collector:4317'', ec_insecure = True\<rparr>,
          tp_resource = \<lparr>service_name = ''sample-app'', service_version = ''1.0.0''\<rparr>,
          mp_exporter = \<lparr>ec_endpoint = ''otel-collector:4317'', ec_insecure = True\<rparr>,
          mp_resource = \<lparr>service_name = ''sample-app'', service_version = ''1.0.0''\<rparr>\<rparr>"
    by (simp add: initOTel_def no_sdk_errors_def env_unset_def os_Getenv_def Let_def
        exporter_New_insecure_endpoint)
  have b: "initOTel no_sdk_errors env_custom =
     Inr \<lparr>tp_exporter = \<lparr>ec_endpoint = ''collector.internal:4317'', ec_insecure = True\<rparr>,
          tp_resource = \<lparr>service_name = ''sample-app'', service_version = ''1.0.0''\<rparr>,
          mp_exporter = \<lparr>ec_endpoint = ''collector.internal:4317'', ec_insecure = True\<rparr>,
          mp_resource = \<lparr>service_name = ''sample-app'', service_version = ''1.0.0''\<rparr>\<rparr>"
    by (simp add: initOTel_def no_sdk_errors_def env_custom_def os_Getenv_def Let_def
        exporter_New_insecure_endpoint)
  from exporters_bound_to_endpoint [OF a] exporters_bound_to_endpoint [OF b] a b
  show ?thesis by simp
qed

section \<open>Shutdown\<close>

text \<open>
  Claim C8.  From any state of the two providers the cleanup function returns without a
  panic, and a second call returns as well and changes nothing.  Each provider hands over
  what it holds and stops its exporter on the first call that finds it running, and never
  again: after any number of calls each exporter has been stopped once.
\<close>

theorem shutdown_twice_is_noop:
  "\<exists>st'. shutdown st = Some st' \<and> shutdown st' = Some st' \<and>
         tp_isShutdown (fst st') \<and> mp_isShutdown (snd st') \<and>
         tp_exporter_stops (fst st') =
           tp_exporter_stops (fst st) + (if tp_isShutdown (fst st) then 0 else 1) \<and>
         mp_exporter_stops (snd st') =
           mp_exporter_stops (snd st) + (if mp_isShutdown (snd st) then 0 else 1) \<and>
         tp_flushed (fst st') =
           tp_flushed (fst st) @ (if tp_isShutdown (fst st) then [] else tp_queue (fst st)) \<and>
         mp_flushed (snd st') =
           mp_flushed (snd st) + (if mp_isShutdown (snd st) then 0 else mp_pending (snd st))"
  by (cases st)
    (simp add: shutdown_def shutdown_fn_def TracerProvider_Shutdown_def MeterProvider_Shutdown_def)

text \<open>
  Two running providers: the first call flushes both and stops both exporters although
  the metric export fails, the second changes nothing.
\<close>

theorem shutdown_twice_is_noop_witness:
  "shutdown running_providers = Some stopped_providers \<and>
   shutdown stopped_providers = Some stopped_providers"
proof -
  from shutdown_twice_is_noop [of running_providers]
  obtain st' where a: "shutdown running_providers = Some st'" and b: "shutdown st' = Some st'"
    by blast
  have "shutdown running_providers = Some stopped_providers"
    by (simp add: shutdown_def shutdown_fn_def TracerProvider_Shutdown_def
        MeterProvider_Shutdown_def running_providers_def stopped_providers_def)
  with a b show ?thesis by simp
qed

section \<open>Whole milliseconds\<close>

text \<open>
  Claim C9.  The two durations the handler passes to \<open>time.Sleep\<close> are
  \<open>rand.Intn(400)\<close> and \<open>rand.Intn(200)\<close> times a millisecond: whole numbers of
  milliseconds from 0 to 399 and from 0 to 199, computed without overflow of the int64.
  The \<open>latency_ms\<close> attribute is the int64 whose value is the first of the two numbers.
\<close>

theorem latency_whole_milliseconds:
  assumes "req_path r = ''/work''"
  shows "let s' = snd (serve g d r s);
             l = rand_Intn 400 (latency_src d);
             c = rand_Intn 200 (cache_src d);
             lr = hd (request_logs s s')
         in l \<in> {0 .. 399} \<and> c \<in> {0 .. 199} \<and>
            request_sleeps s s' = [word_of_int l * Millisecond, word_of_int c * Millisecond] \<and>
            map sint (request_sleeps s s') = [l * 1000000, c * 1000000] \<and>
            map (\<lambda>x. sint x mod 1000000) (request_sleeps s s') = [0, 0] \<and>
            map_of (lr_attrs lr) ''latency_ms'' = Some (Int64Value (word_of_int l)) \<and>
            sint (word_of_int l :: 64 word) = l"
proof -
  have l: "0 \<le> rand_Intn 400 (latency_src d)" "rand_Intn 400 (latency_src d) < 400"
    and c: "0 \<le> rand_Intn 200 (cache_src d)" "rand_Intn 200 (cache_src d) < 200"
    by (simp_all add: rand_Intn_range)
  have a: "sint (word_of_int (rand_Intn 400 (latency_src d)) * Millisecond :: duration) =
      rand_Intn 400 (latency_src d) * 1000000"
    by (rule sint_Intn_ms) simp_all
  have b: "sint (word_of_int (rand_Intn 200 (cache_src d)) * Millisecond :: duration) =
      rand_Intn 200 (cache_src d) * 1000000"
    by (rule sint_Intn_ms) simp_all
  have w: "sint (word_of_int (rand_Intn 400 (latency_src d)) :: 64 word) =
      rand_Intn 400 (latency_src d)"
    using l by (simp only: sint_sbintrunc') (simp add: signed_take_bit_int_eq_self)
  show ?thesis
    using l c
    by (simp add: Let_def serve_work_sleeps [OF assms] serve_work_logs [OF assms] a b w
        work_log_record_def)
qed

text \<open>
  Source values far above the bounds still give 399 ms and 7 ms.
\<close>

theorem latency_whole_milliseconds_witness:
  "req_path work_request = ''/work'' \<and>
   request_sleeps late_world (snd (serve counting_ids large_draws work_request late_world)) =
     [399 * Millisecond, 7 * Millisecond] \<and>
   map sint (request_sleeps late_world
     (snd (serve counting_ids large_draws work_request late_world))) = [399000000, 7000000] \<and>
   map_of (lr_attrs (hd (request_logs late_world
      (snd (serve counting_ids large_draws work_request late_world))))) ''latency_ms'' =
     Some (Int64Value 399)"
proof -
  note a = latency_whole_milliseconds [OF work_request_path,
      where s = late_world and g = counting_ids and d = large_draws]
  have m: "sint (399 * Millisecond :: duration) = 399000000"
    "sint (7 * Millisecond :: duration) = 7000000"
    using sint_ms [of 399] sint_ms [of 7] by simp_all
  from a show ?thesis
    using work_request_path by (simp add: Let_def large_draws_Intn m)
qed

section \<open>Log correlation\<close>

text \<open>
  Claim C10.  The \<open>trace_id\<close> and \<open>span_id\<close> attributes of the log record are those of
  the root span found in the request context.  Both child spans have the root span as
  parent, so \<open>simulate_work\<close> was not the active span when \<open>db_cache_lookup\<close>
  started; when the generator gives the children span ids other than the root's, the text
  of a child's span id is no attribute value of the record.  The record written by
  \<open>workHandler\<close> does not depend on the id generator at all.
\<close>

theorem log_ids_are_root_span_ids:
  assumes "req_path r = ''/work''" and "ids_valid g (next_id s)"
    and "NewSpanID g (next_id s + 1) \<noteq>
           sc_span_id (ls_context (new_span g (req_ctx r) ''work'' (next_id s)
             (clock s + lapse s 0)))"
    and "NewSpanID g (next_id s + 2) \<noteq>
           sc_span_id (ls_context (new_span g (req_ctx r) ''work'' (next_id s)
             (clock s + lapse s 0)))"
  shows "let s' = snd (serve g d r s);
             root = ls_context (new_span g (req_ctx r) ''work'' (next_id s) (clock s + lapse s 0));
             sw = request_spans s s' ! 0;
             db = request_spans s s' ! 1;
             lr = hd (request_logs s s')
         in length (request_logs s s') = 1 \<and>
            map_of (lr_attrs lr) ''trace_id'' = Some (StringValue (TraceID_String (sc_trace_id root))) \<and>
            map_of (lr_attrs lr) ''span_id'' = Some (StringValue (SpanID_String (sc_span_id root))) \<and>
            sp_name sw = ''simulate_work'' \<and> sp_parent sw = Some (sc_span_id root) \<and>
            sp_name db = ''db_cache_lookup'' \<and> sp_parent db = Some (sc_span_id root) \<and>
            StringValue (SpanID_String (sc_span_id (sp_context sw))) \<notin> snd ` set (lr_attrs lr) \<and>
            StringValue (SpanID_String (sc_span_id (sp_context db))) \<notin> snd ` set (lr_attrs lr) \<and>
            request_logs s1 (snd (workHandler g1 d w1 r1 s1)) =
              request_logs s1 (snd (workHandler g2 d w2 r1 s1))"
proof -
  define root where
    "root = ls_context (new_span g (req_ctx r) ''work'' (next_id s) (clock s + lapse s 0))"
  have v: "span_context_IsValid root"
    unfolding root_def using assms(2) by (rule new_span_valid)
  have len: "SpanID_String a \<noteq> TraceID_String b" for a b
  proof
    assume "SpanID_String a = TraceID_String b"
    then have "length (SpanID_String a) = length (TraceID_String b)" by simp
    then show False by (simp add: SpanID_String_def TraceID_String_def hex_encode_length)
  qed
  have f1: "SpanID_String (NewSpanID g (Suc (next_id s))) \<noteq> SpanID_String (sc_span_id root)"
    using assms(3) unfolding root_def by (auto dest: SpanID_String_inj)
  have f2: "SpanID_String (NewSpanID g (Suc (Suc (next_id s)))) \<noteq> SpanID_String (sc_span_id root)"
    using assms(4) unfolding root_def by (auto dest: SpanID_String_inj)
  have g: "request_logs s1 (snd (workHandler g1 d w1 r1 s1)) =
        request_logs s1 (snd (workHandler g2 d w2 r1 s1))"
    by (simp add: workHandler_logs_any_generator)
  show ?thesis
    using f1 f2 g
    by (simp add: Let_def serve_work_spans [OF assms(1)] serve_work_logs [OF assms(1)]
        root_def [symmetric] end_span_simps new_span_simps new_span_child [OF v]
        work_log_record_def len)
qed

text \<open>
  With the counting generator the root has span id 1 and the children 2 and 3.
\<close>

theorem log_ids_are_root_span_ids_witness:
  "req_path work_request = ''/work'' \<and>
   ids_valid counting_ids (next_id initial_world) \<and>
   map (\<lambda>sp. (sp_name sp, sc_span_id (sp_context sp), sp_parent sp))
     (request_spans initial_world (snd (serve counting_ids failing_draws work_request initial_world))) =
     [(''simulate_work'', 2, Some 1), (''db_cache_lookup'', 3, Some 1), (''work'', 1, None)] \<and>
   length (request_logs initial_world
     (snd (serve counting_ids failing_draws work_request initial_world))) = 1 \<and>
   map_of (lr_attrs (hd (request_logs initial_world
     (snd (serve counting_ids failing_draws work_request initial_world))))) ''trace_id'' =
     Some (StringValue (TraceID_String 1)) \<and>
   map_of (lr_attrs (hd (request_logs initial_world
     (snd (serve counting_ids failing_draws work_request initial_world))))) ''span_id'' =
     Some (StringValue (SpanID_String 1))"
proof -
  have i: "ids_valid counting_ids (next_id initial_world)"
    by (simp add: ids_valid_def counting_ids_def initial_world_def)
  have root: "new_span counting_ids (req_ctx work_request) ''work'' (next_id initial_world)
      (clock initial_world + lapse initial_world 0) =
      \<lparr>ls_name = ''work'', ls_context = \<lparr>sc_trace_id = 1, sc_span_id = 1\<rparr>, ls_parent = None,
       ls_start = 0\<rparr>"
    by (simp add: new_span_def Let_def SpanFromContext_def work_request_def counting_ids_def
        initial_world_def span_context_IsValid_def lapse_def)
  have v: "span_context_IsValid \<lparr>sc_trace_id = 1, sc_span_id = 1\<rparr>"
    by (simp add: span_context_IsValid_def)
  have n1: "NewSpanID counting_ids (next_id initial_world + 1) \<noteq>
      sc_span_id (ls_context (new_span counting_ids (req_ctx work_request) ''work''
        (next_id initial_world) (clock initial_world + lapse initial_world 0)))"
    by (simp add: root) (simp add: counting_ids_def initial_world_def)
  have n2: "NewSpanID counting_ids (next_id initial_world + 2) \<noteq>
      sc_span_id (ls_context (new_span counting_ids (req_ctx work_request) ''work''
        (next_id initial_world) (clock initial_world + lapse initial_world 0)))"
    by (simp add: root) (simp add: counting_ids_def initial_world_def)
  note a = log_ids_are_root_span_ids [OF work_request_path i n1 n2,
      where d = failing_draws, unfolded Let_def root, simplified]
  have sp: "map (\<lambda>sp. (sp_name sp, sc_span_id (sp_context sp), sp_parent sp))
     (request_spans initial_world (snd (serve counting_ids failing_draws work_request initial_world))) =
     [(''simulate_work'', 2, Some 1), (''db_cache_lookup'', 3, Some 1), (''work'', 1, None)]"
    by (simp add: serve_work_spans [OF work_request_path] Let_def root
        end_span_simps new_span_simps new_span_child [OF v])
      (simp add: counting_ids_def initial_world_def end_span_def)
  from a sp show ?thesis
    using work_request_path i by simp
qed

end
